theory Spec2Isabelle
  imports Complex_Main "HOL-Library.Word" "HOL-Library.Log_Nat"
begin

section \<open>The blob watcher of \<^verbatim>\<open>src/index.ts\<close>\<close>

text \<open>
  The file has four functions: \<^verbatim>\<open>getBlobSize\<close>, \<^verbatim>\<open>parseFromContext\<close>,
  \<^verbatim>\<open>postWithRetry\<close> and the handler \<^verbatim>\<open>BlobWatcher\<close>. They are embedded below
  in the order of the source.

  Conventions of the embedding.
  \<^item> A JavaScript string is modelled by its UTF-8 bytes (\<open>string\<close>), so
    \<^verbatim>\<open>Buffer.byteLength(s)\<close> is the length of the list. The character \<^verbatim>\<open>/\<close> is
    one unit in UTF-8 and in UTF-16 and is never part of a longer sequence, so
    \<^verbatim>\<open>indexOf("/")\<close>, \<^verbatim>\<open>slice\<close> and \<^verbatim>\<open>split("/")\<close> cut at the same places.
  \<^item> The numbers read from the environment (\<^verbatim>\<open>MAX_RETRIES\<close>, \<^verbatim>\<open>TIMEOUT_MS\<close>,
    \<^verbatim>\<open>RETRY_BASE_MS\<close>) and HTTP status codes are modelled as \<open>int\<close>; values that are
    not integers (a fraction, \<^verbatim>\<open>NaN\<close>) are outside the model. The loop counter stays
    far below \<open>2^53\<close>, where a double counts exactly.
  \<^item> The backoff delay is computed as the source computes it, in IEEE 754 doubles: it is
    a \<open>real\<close> that every multiplication and addition rounds to the nearest double.
    \<^verbatim>\<open>Math.random()\<close> is a \<open>real\<close>.
  \<^item> What the platform does is an input of the model: the outcome of the \<open>i\<close>-th
    \<^verbatim>\<open>fetch\<close>, the \<open>i\<close>-th value of \<^verbatim>\<open>Math.random()\<close>, the result of
    \<^verbatim>\<open>JSON.stringify\<close> on a payload and of \<^verbatim>\<open>new URL(uri).pathname\<close>.
  \<^item> \<^verbatim>\<open>throw\<close> is a value: a function that can throw returns a \<open>completion\<close>.
  \<^item> The effects (\<^verbatim>\<open>fetch\<close> calls, \<^verbatim>\<open>Math.random()\<close> draws, timer sleeps and
    \<^verbatim>\<open>context.log\<close> lines) are recorded in a \<open>world\<close> that is passed through.
\<close>

subsection \<open>Configuration\<close>

record config =
  DOWNSTREAM_URL :: string
  DOWNSTREAM_KEY :: string
  FAIL_ON_NON_2XX :: bool
  MAX_RETRIES :: int
  TIMEOUT_MS :: int
  RETRY_BASE_MS :: int
  RETRY_STATUSES :: "int set"

subsection \<open>Numbers in template literals\<close>

text \<open>
  \<^verbatim>\<open>`${n}`\<close> for an integer \<open>n\<close>: its decimal digits, with a minus sign below zero
  (JavaScript prints an integer so below \<open>10^21\<close>).
\<close>

definition digit_char :: "nat \<Rightarrow> char" where
  "digit_char d = ''0123456789'' ! d"

fun digits :: "nat \<Rightarrow> string" where
  "digits n = (if n < 10 then [digit_char n] else digits (n div 10) @ [digit_char (n mod 10)])"

definition String_int :: "int \<Rightarrow> string" where
  "String_int i = (if i < 0 then CHR ''-'' # digits (nat (- i)) else digits (nat i))"

subsection \<open>Values the platform hands over\<close>

text \<open>
  A \<^verbatim>\<open>Response\<close>: its status and its body text. \<^verbatim>\<open>resp.ok\<close> is, by the Fetch
  standard, true exactly for the statuses 200 to 299.
\<close>

record response =
  status :: int
  resp_text :: string

definition ok :: "response \<Rightarrow> bool" where
  "ok resp = (200 \<le> status resp \<and> status resp \<le> 299)"

text \<open>
  A thrown value \<^verbatim>\<open>err\<close>, as far as the code reads it: \<^verbatim>\<open>err?.name\<close>,
  \<^verbatim>\<open>err?.message\<close> (\<open>None\<close> when null or undefined) and \<^verbatim>\<open>String(err)\<close>.
\<close>

record thrown =
  err_name :: "string option"
  err_message :: "string option"
  err_String :: string

text \<open>\<^verbatim>\<open>new Error(msg)\<close>.\<close>

definition Error :: "string \<Rightarrow> thrown" where
  "Error msg = \<lparr>err_name = Some ''Error'', err_message = Some msg, err_String = ''Error: '' @ msg\<rparr>"

text \<open>How a call ends: it returns a value or it throws.\<close>

datatype 'a completion = Returned 'a | Thrown thrown

text \<open>
  The request of one delivery. The body is kept as it is given: the model covers the
  bodies that \<^verbatim>\<open>JSON.stringify\<close> serialises, as the one the only caller passes (an
  object of two strings and a number) is. A body on which \<^verbatim>\<open>JSON.stringify\<close> throws,
  which would end the \<^verbatim>\<open>try\<close> block before \<^verbatim>\<open>fetch\<close> is called, is outside the model.
\<close>

record 'b request =
  url :: string
  headers :: "(string \<times> string) list"
  body :: 'b

text \<open>
  How a call of \<^verbatim>\<open>fetch\<close> ends: it resolved with a response, or it threw (the abort
  of the timer, a connection error).
\<close>

datatype fetch_outcome = Responded response | Threw thrown

record world =
  fetches :: nat
  draws :: nat
  sleeps :: "real list"
  logs :: "string list"

definition world0 :: world where
  "world0 = \<lparr>fetches = 0, draws = 0, sleeps = [], logs = []\<rparr>"

definition log :: "string \<Rightarrow> world \<Rightarrow> world" where
  "log line w = w\<lparr>logs := logs w @ [line]\<rparr>"

subsection \<open>\<^verbatim>\<open>getBlobSize\<close>\<close>

text \<open>
  The payload is \<^verbatim>\<open>unknown\<close> in the source; the function tells five kinds apart.
  \<open>Other v\<close> is any value that is neither null, undefined, a string nor a
  \<^verbatim>\<open>Uint8Array\<close> (a \<^verbatim>\<open>Buffer\<close> is one).
\<close>

datatype 'a payload = Null | Undefined | Str string | Uint8Array "8 word list" | Other 'a

definition Buffer_byteLength :: "string \<Rightarrow> nat" where
  "Buffer_byteLength s = length s"

text \<open>
  \<open>stringify v\<close> is \<^verbatim>\<open>JSON.stringify(v)\<close>: \<open>Some\<close> of the text, or \<open>None\<close> when the
  call throws or returns \<^verbatim>\<open>undefined\<close> (on which \<^verbatim>\<open>Buffer.byteLength\<close> throws); both
  end in the \<^verbatim>\<open>catch\<close>.
\<close>

fun getBlobSize :: "('a \<Rightarrow> string option) \<Rightarrow> 'a payload \<Rightarrow> nat" where
  "getBlobSize stringify Null = 0"
| "getBlobSize stringify Undefined = 0"
| "getBlobSize stringify (Str s) = Buffer_byteLength s"
| "getBlobSize stringify (Uint8Array bs) = length bs"
| "getBlobSize stringify (Other v) =
     (case stringify v of Some json \<Rightarrow> Buffer_byteLength json | None \<Rightarrow> 0)"

subsection \<open>\<^verbatim>\<open>parseFromContext\<close>\<close>

text \<open>
  \<^verbatim>\<open>ctx.triggerMetadata\<close> may be undefined; when it is there it maps a key to a value.
  A key that is missing, or whose value is null or undefined, is \<open>None\<close>; any other
  value is kept as \<^verbatim>\<open>String(value)\<close>, which is all the code reads.
\<close>

record InvocationContext =
  triggerMetadata :: "(string \<rightharpoonup> string) option"

record blob_ref =
  container :: string
  name :: string

text \<open>\<^verbatim>\<open>String(ctx.triggerMetadata?.key ?? "")\<close>.\<close>

definition metadata_string :: "InvocationContext \<Rightarrow> string \<Rightarrow> string" where
  "metadata_string ctx key =
     (case triggerMetadata ctx of
        None \<Rightarrow> ''''
      | Some m \<Rightarrow> (case m key of None \<Rightarrow> '''' | Some v \<Rightarrow> v))"

definition slash :: char where
  "slash = CHR ''/''"

text \<open>\<^verbatim>\<open>s.split("/")\<close>: the pieces between the slashes; the empty string gives one empty piece.\<close>

fun split_slash :: "string \<Rightarrow> string list" where
  "split_slash [] = [[]]"
| "split_slash (c # cs) =
     (if c = slash then [] # split_slash cs
      else (case split_slash cs of
              [] \<Rightarrow> [[c]]
            | p # ps \<Rightarrow> (c # p) # ps))"

text \<open>\<^verbatim>\<open>parts.join("/")\<close>.\<close>

fun join_slash :: "string list \<Rightarrow> string" where
  "join_slash [] = []"
| "join_slash [p] = p"
| "join_slash (p # q # ps) = p @ slash # join_slash (q # ps)"

text \<open>
  \<open>pathname uri\<close> is \<^verbatim>\<open>new URL(uri).pathname\<close>, \<open>None\<close> when the constructor throws.
\<close>

definition parseFromContext :: "(string \<Rightarrow> string option) \<Rightarrow> InvocationContext \<Rightarrow> blob_ref" where
  "parseFromContext pathname ctx =
     (let blobTrigger = metadata_string ctx ''blobTrigger'' in
      if blobTrigger \<noteq> [] \<and> slash \<in> set blobTrigger then
        \<lparr>container = takeWhile (\<lambda>c. c \<noteq> slash) blobTrigger,
         name = tl (dropWhile (\<lambda>c. c \<noteq> slash) blobTrigger)\<rparr>
      else
        (let uri = metadata_string ctx ''uri'' in
         if uri \<noteq> [] then
           (case pathname uri of
              Some p \<Rightarrow>
                (let parts = split_slash (dropWhile (\<lambda>c. c = slash) p) in
                 \<lparr>container = (if 1 < length parts then parts ! 1 else []),
                  name = join_slash (drop 2 parts)\<rparr>)
            | None \<Rightarrow> \<lparr>container = [], name = []\<rparr>)
         else \<lparr>container = [], name = []\<rparr>))"

subsection \<open>\<^verbatim>\<open>postWithRetry\<close>\<close>

text \<open>
  Arithmetic on doubles (IEEE 754 binary64, round to nearest, ties to even). A double is
  a multiple of its unit in the last place that has at most 53 significant bits; the unit
  of a number \<open>x\<close> with \<open>2^e \<le> |x| < 2^(e+1)\<close> is \<open>2^(e-52)\<close> and never less than
  \<open>2^(-1074)\<close>. \<open>bitlen \<lfloor>|x| * 2^1074\<rfloor> - 1075\<close> is that \<open>e\<close>. Results of magnitude
  \<open>2^1024\<close> and more (\<^verbatim>\<open>Infinity\<close> in the source) are outside the model.
\<close>

definition round_even :: "real \<Rightarrow> int" where
  "round_even y =
     (let f = \<lfloor>y\<rfloor> in
      if y - of_int f < 1 / 2 then f
      else if 1 / 2 < y - of_int f then f + 1
      else if even f then f else f + 1)"

definition ulp :: "real \<Rightarrow> real" where
  "ulp x = 2 powi (max (bitlen \<lfloor>\<bar>x\<bar> * 2 ^ 1074\<rfloor> - 1075) (- 1022) - 52)"

definition round_double :: "real \<Rightarrow> real" where
  "round_double x = of_int (round_even (x / ulp x)) * ulp x"

text \<open>
  \<^verbatim>\<open>RETRY_BASE_MS * Math.pow(2, attempt) + Math.floor(Math.random() * 150)\<close>, where
  \<open>r\<close> is the value \<^verbatim>\<open>Math.random()\<close> returned: two products and a sum, each
  rounded. \<^verbatim>\<open>Math.pow(2, attempt)\<close> is a power of two and exact.
\<close>

definition backoff_ms :: "config \<Rightarrow> nat \<Rightarrow> real \<Rightarrow> real" where
  "backoff_ms cfg attempt r =
     round_double
       (round_double (of_int (RETRY_BASE_MS cfg) * 2 ^ attempt)
          + of_int \<lfloor>round_double (r * 150)\<rfloor>)"

text \<open>The \<^verbatim>\<open>reason\<close> of the \<^verbatim>\<open>catch\<close> block.\<close>

definition failure_reason :: "config \<Rightarrow> thrown \<Rightarrow> string" where
  "failure_reason cfg err =
     (if err_name err = Some ''AbortError''
      then ''timeout ('' @ String_int (TIMEOUT_MS cfg) @ ''ms)''
      else (case err_message err of Some m \<Rightarrow> m | None \<Rightarrow> err_String err))"

definition did_fetch :: "world \<Rightarrow> world" where
  "did_fetch w = w\<lparr>fetches := Suc (fetches w)\<rparr>"

definition sleep :: "real \<Rightarrow> world \<Rightarrow> world" where
  "sleep ms w = w\<lparr>sleeps := sleeps w @ [ms]\<rparr>"

text \<open>
  The three lines both retry branches share: draw the jitter and compute the backoff, log
  \<open>what\<close> with the delay and the attempt number, sleep. The caller increments
  \<^verbatim>\<open>attempt\<close>. The delay is a whole number, whose digits the log line shows.
\<close>

definition schedule_retry :: "config \<Rightarrow> (nat \<Rightarrow> real) \<Rightarrow> nat \<Rightarrow> string \<Rightarrow> world \<Rightarrow> world" where
  "schedule_retry cfg random attempt what w =
     (let backoff = backoff_ms cfg attempt (random (draws w)) in
      sleep backoff
        (log (what @ ''; retrying in '' @ String_int \<lfloor>backoff\<rfloor> @ ''ms (attempt ''
                @ String_int (int attempt + 1) @ ''/'' @ String_int (MAX_RETRIES cfg) @ '')'')
           (w\<lparr>draws := Suc (draws w)\<rparr>)))"

definition gave_up :: "config \<Rightarrow> thrown \<Rightarrow> thrown" where
  "gave_up cfg err =
     Error (''Downstream request failed after '' @ String_int (MAX_RETRIES cfg)
              @ '' retries: '' @ failure_reason cfg err)"

text \<open>
  The \<^verbatim>\<open>while (attempt <= MAX_RETRIES)\<close> loop with its two local variables. The result
  \<open>Returned None\<close> is the \<^verbatim>\<open>return lastResp!\<close> after the loop when \<^verbatim>\<open>lastResp\<close> is
  still undefined.
\<close>

function postWithRetry_loop ::
  "config \<Rightarrow> (nat \<Rightarrow> 'b request \<Rightarrow> fetch_outcome) \<Rightarrow> (nat \<Rightarrow> real) \<Rightarrow> 'b request
     \<Rightarrow> nat \<Rightarrow> response option \<Rightarrow> world \<Rightarrow> response option completion \<times> world" where
  "postWithRetry_loop cfg fetch random req attempt lastResp w =
     (if int attempt \<le> MAX_RETRIES cfg then
        (case fetch (fetches w) req of
           Responded resp \<Rightarrow>
             if ok resp then (Returned (Some resp), did_fetch w)
             else if status resp \<in> RETRY_STATUSES cfg \<and> int attempt < MAX_RETRIES cfg then
               postWithRetry_loop cfg fetch random req (Suc attempt) (Some resp)
                 (schedule_retry cfg random attempt
                    (''Downstream '' @ String_int (status resp)) (did_fetch w))
             else (Returned (Some resp), did_fetch w)
         | Threw err \<Rightarrow>
             if int attempt < MAX_RETRIES cfg then
               postWithRetry_loop cfg fetch random req (Suc attempt) lastResp
                 (schedule_retry cfg random attempt
                    (''Downstream error: '' @ failure_reason cfg err) (did_fetch w))
             else (Thrown (gave_up cfg err), did_fetch w))
      else (Returned lastResp, w))"
  by pat_completeness auto
termination
  by (relation "measure (\<lambda>(cfg, fetch, random, req, attempt, lastResp, w).
        nat (MAX_RETRIES cfg + 1 - int attempt))") auto

definition postWithRetry ::
  "config \<Rightarrow> (nat \<Rightarrow> 'b request \<Rightarrow> fetch_outcome) \<Rightarrow> (nat \<Rightarrow> real)
     \<Rightarrow> string \<Rightarrow> 'b \<Rightarrow> (string \<times> string) list \<Rightarrow> world
     \<Rightarrow> response option completion \<times> world" where
  "postWithRetry cfg fetch random u b hs w =
     postWithRetry_loop cfg fetch random \<lparr>url = u, headers = hs, body = b\<rparr> 0 None w"

subsection \<open>\<^verbatim>\<open>BlobWatcher\<close>\<close>

record downstream_payload =
  Container :: string
  Name :: string
  Size :: nat

text \<open>
  The handler is embedded in the pieces it is written in: the payload (lines 139 to 143),
  the headers (145 and 146), the two log lines before the call (148 and 149) and what
  follows the call (152 to 168).
\<close>

definition make_payload ::
  "('a \<Rightarrow> string option) \<Rightarrow> (string \<Rightarrow> string option) \<Rightarrow> 'a payload \<Rightarrow> InvocationContext
     \<Rightarrow> downstream_payload" where
  "make_payload stringify pathname blob context =
     (let parsed = parseFromContext pathname context;
          size = getBlobSize stringify blob
      in \<lparr>Container = container parsed, Name = name parsed, Size = size\<rparr>)"

definition make_headers :: "config \<Rightarrow> (string \<times> string) list" where
  "make_headers cfg =
     (''content-type'', ''application/json'')
       # (if DOWNSTREAM_KEY cfg \<noteq> [] then [(''x-functions-key'', DOWNSTREAM_KEY cfg)] else [])"

definition announce :: "config \<Rightarrow> downstream_payload \<Rightarrow> world \<Rightarrow> world" where
  "announce cfg p w =
     log (''Posting to downstream '' @ DOWNSTREAM_URL cfg)
       (log (''New blob detected: '' @ Container p @ ''/'' @ Name p
               @ '' ('' @ String_int (int (Size p)) @ '' bytes)'') w)"

text \<open>
  What \<^verbatim>\<open>resp.text()\<close> throws when \<^verbatim>\<open>resp\<close> is undefined (the message is the
  engine's; the model keeps its beginning).
\<close>

definition undefined_resp :: thrown where
  "undefined_resp =
     \<lparr>err_name = Some ''TypeError'',
      err_message = Some ''Cannot read properties of undefined'',
      err_String = ''TypeError: Cannot read properties of undefined''\<rparr>"

text \<open>
  After the call: an error of the engine is logged and thrown again; a response is logged
  with the first 2000 units of its text, and a response that is not \<^verbatim>\<open>ok\<close> fails the
  invocation when \<^verbatim>\<open>FAIL_ON_NON_2XX\<close> is set.
\<close>

fun after_delivery ::
  "config \<Rightarrow> response option completion \<times> world \<Rightarrow> unit completion \<times> world" where
  "after_delivery cfg (Thrown err, w) =
     (Thrown err,
      log (''Downstream final error: ''
             @ (case err_message err of Some m \<Rightarrow> m | None \<Rightarrow> err_String err)) w)"
| "after_delivery cfg (Returned None, w) = (Thrown undefined_resp, w)"
| "after_delivery cfg (Returned (Some resp), w) =
     (let w' = log (''Downstream returned '' @ String_int (status resp) @ '': ''
                      @ take 2000 (resp_text resp)) w
      in if \<not> ok resp \<and> FAIL_ON_NON_2XX cfg
         then (Thrown (Error (''Downstream call failed with '' @ String_int (status resp))), w')
         else (Returned (), w'))"

definition BlobWatcher ::
  "config \<Rightarrow> ('a \<Rightarrow> string option) \<Rightarrow> (string \<Rightarrow> string option)
     \<Rightarrow> (nat \<Rightarrow> downstream_payload request \<Rightarrow> fetch_outcome) \<Rightarrow> (nat \<Rightarrow> real)
     \<Rightarrow> 'a payload \<Rightarrow> InvocationContext \<Rightarrow> world \<Rightarrow> unit completion \<times> world" where
  "BlobWatcher cfg stringify pathname fetch random blob context w =
     (if DOWNSTREAM_URL cfg = [] then
        (Thrown (Error ''Missing DOWNSTREAM_FUNCTION_URL''),
         log ''Config error: DOWNSTREAM_FUNCTION_URL is not set.'' w)
      else
        (let payload = make_payload stringify pathname blob context
         in after_delivery cfg
              (postWithRetry cfg fetch random (DOWNSTREAM_URL cfg) payload (make_headers cfg)
                 (announce cfg payload w))))"

subsection \<open>Concrete inputs\<close>

text \<open>The configuration the source falls back to when no environment variable is set.\<close>

definition default_config :: config where
  "default_config =
     \<lparr>DOWNSTREAM_URL = '''', DOWNSTREAM_KEY = '''', FAIL_ON_NON_2XX = True, MAX_RETRIES = 3,
      TIMEOUT_MS = 8000, RETRY_BASE_MS = 400, RETRY_STATUSES = {408, 429, 500, 502, 503, 504}\<rparr>"

text \<open>A response with the given status and an empty body.\<close>

definition resp_of :: "int \<Rightarrow> response" where
  "resp_of s = \<lparr>status = s, resp_text = ''''\<rparr>"

text \<open>
  A trigger of the Azurite emulator whose \<^verbatim>\<open>blobTrigger\<close> has no slash, and
  \<^verbatim>\<open>new URL(uri).pathname\<close> at its \<^verbatim>\<open>uri\<close> (the map knows this one URI only).
\<close>

definition azurite_uri :: string where
  "azurite_uri = ''http://127.0.0.1:10000/devstoreaccount1/my-container/dir/file.txt''"

definition azurite_pathname :: "string \<Rightarrow> string option" where
  "azurite_pathname = [azurite_uri \<mapsto> ''/devstoreaccount1/my-container/dir/file.txt'']"

definition ctx_no_slash :: InvocationContext where
  "ctx_no_slash =
     \<lparr>triggerMetadata = Some [''blobTrigger'' \<mapsto> ''abc'', ''uri'' \<mapsto> azurite_uri]\<rparr>"

subsection \<open>The extraction as the specification words it\<close>

text \<open>
  ``Prefer the combined descriptor; split on the first \<^verbatim>\<open>/\<close> into container and the
  remainder as name. If absent, fall back to parsing the URI path. If neither is present,
  container and name are both the empty string.'' A descriptor is present when the
  metadata has a non-empty \<^verbatim>\<open>blobTrigger\<close>; the URI branch is the one of the source.
\<close>

definition extraction_as_specified ::
  "(string \<Rightarrow> string option) \<Rightarrow> InvocationContext \<Rightarrow> blob_ref" where
  "extraction_as_specified pathname ctx =
     (let descriptor = metadata_string ctx ''blobTrigger'' in
      if descriptor \<noteq> [] then
        \<lparr>container = takeWhile (\<lambda>c. c \<noteq> slash) descriptor,
         name = drop (Suc (length (takeWhile (\<lambda>c. c \<noteq> slash) descriptor))) descriptor\<rparr>
      else
        (let uri = metadata_string ctx ''uri'' in
         if uri \<noteq> [] then
           (case pathname uri of
              Some p \<Rightarrow>
                (let parts = split_slash (dropWhile (\<lambda>c. c = slash) p) in
                 \<lparr>container = (if 1 < length parts then parts ! 1 else []),
                  name = join_slash (drop 2 parts)\<rparr>)
            | None \<Rightarrow> \<lparr>container = [], name = []\<rparr>)
         else \<lparr>container = [], name = []\<rparr>))"

section \<open>Properties\<close>

subsection \<open>One step of the loop\<close>

text \<open>
  The loop function is unfolded one iteration at a time, by the lemmas below: one for each
  way an iteration ends.
\<close>

declare postWithRetry_loop.simps [simp del]

lemma fetches_did_fetch [simp]: "fetches (did_fetch w) = Suc (fetches w)"
  and draws_did_fetch [simp]: "draws (did_fetch w) = draws w"
  and sleeps_did_fetch [simp]: "sleeps (did_fetch w) = sleeps w"
  and logs_did_fetch [simp]: "logs (did_fetch w) = logs w"
  by (simp_all add: did_fetch_def)

lemma fetches_schedule_retry [simp]:
  "fetches (schedule_retry cfg random attempt what w) = fetches w"
  and draws_schedule_retry [simp]:
  "draws (schedule_retry cfg random attempt what w) = Suc (draws w)"
  and sleeps_schedule_retry [simp]:
  "sleeps (schedule_retry cfg random attempt what w)
     = sleeps w @ [backoff_ms cfg attempt (random (draws w))]"
  by (simp_all add: schedule_retry_def sleep_def log_def Let_def)

lemma loop_exit:
  "\<not> int attempt \<le> MAX_RETRIES cfg \<Longrightarrow>
   postWithRetry_loop cfg fetch random req attempt lastResp w = (Returned lastResp, w)"
  by (subst postWithRetry_loop.simps) simp

lemma loop_ok:
  "int attempt \<le> MAX_RETRIES cfg \<Longrightarrow> fetch (fetches w) req = Responded resp \<Longrightarrow> ok resp \<Longrightarrow>
   postWithRetry_loop cfg fetch random req attempt lastResp w = (Returned (Some resp), did_fetch w)"
  by (subst postWithRetry_loop.simps) simp

lemma loop_retry_status:
  "int attempt < MAX_RETRIES cfg \<Longrightarrow> fetch (fetches w) req = Responded resp \<Longrightarrow> \<not> ok resp \<Longrightarrow>
   status resp \<in> RETRY_STATUSES cfg \<Longrightarrow>
   postWithRetry_loop cfg fetch random req attempt lastResp w =
   postWithRetry_loop cfg fetch random req (Suc attempt) (Some resp)
     (schedule_retry cfg random attempt (''Downstream '' @ String_int (status resp)) (did_fetch w))"
  by (subst postWithRetry_loop.simps) simp

lemma loop_final_status:
  "int attempt \<le> MAX_RETRIES cfg \<Longrightarrow> fetch (fetches w) req = Responded resp \<Longrightarrow> \<not> ok resp \<Longrightarrow>
   status resp \<notin> RETRY_STATUSES cfg \<or> int attempt = MAX_RETRIES cfg \<Longrightarrow>
   postWithRetry_loop cfg fetch random req attempt lastResp w = (Returned (Some resp), did_fetch w)"
  by (subst postWithRetry_loop.simps) auto

lemma loop_retry_error:
  "int attempt < MAX_RETRIES cfg \<Longrightarrow> fetch (fetches w) req = Threw err \<Longrightarrow>
   postWithRetry_loop cfg fetch random req attempt lastResp w =
   postWithRetry_loop cfg fetch random req (Suc attempt) lastResp
     (schedule_retry cfg random attempt (''Downstream error: '' @ failure_reason cfg err) (did_fetch w))"
  by (subst postWithRetry_loop.simps) simp

lemma loop_give_up:
  "int attempt = MAX_RETRIES cfg \<Longrightarrow> fetch (fetches w) req = Threw err \<Longrightarrow>
   postWithRetry_loop cfg fetch random req attempt lastResp w = (Thrown (gave_up cfg err), did_fetch w)"
  by (subst postWithRetry_loop.simps) simp

lemma loop_outcome:
  "int attempt \<le> MAX_RETRIES cfg \<Longrightarrow>
   postWithRetry_loop cfg fetch random req attempt lastResp w = (res, w') \<Longrightarrow>
   res \<noteq> Returned None \<and> fetches w < fetches w' \<and>
   int (fetches w') + int attempt \<le> int (fetches w) + MAX_RETRIES cfg + 1"
proof (induction cfg fetch random req attempt lastResp w rule: postWithRetry_loop.induct)
  case (1 cfg fetch random req attempt lastResp w)
  show ?case
  proof (cases "fetch (fetches w) req")
    case (Responded resp)
    show ?thesis
    proof (cases "ok resp")
      case True
      with 1(3,4) Responded show ?thesis by (auto simp: loop_ok)
    next
      case notok: False
      show ?thesis
      proof (cases "status resp \<in> RETRY_STATUSES cfg \<and> int attempt < MAX_RETRIES cfg")
        case True
        with 1(1)[OF 1(3) Responded notok True] 1(3,4) Responded notok show ?thesis
          by (auto simp: loop_retry_status)
      next
        case False
        with 1(3,4) Responded notok show ?thesis by (auto simp: loop_final_status)
      qed
    qed
  next
    case (Threw err)
    show ?thesis
    proof (cases "int attempt < MAX_RETRIES cfg")
      case True
      with 1(2)[OF 1(3) Threw True] 1(3,4) Threw show ?thesis
        by (auto simp: loop_retry_error)
    next
      case False
      with 1(3,4) Threw show ?thesis by (auto simp: loop_give_up)
    qed
  qed
qed

lemma loop_thrown:
  "int attempt \<le> MAX_RETRIES cfg \<Longrightarrow>
   postWithRetry_loop cfg fetch random req attempt lastResp w = (Thrown e, w') \<Longrightarrow>
   \<exists>err. fetch (fetches w' - 1) req = Threw err \<and> e = gave_up cfg err \<and>
         int (fetches w') + int attempt = int (fetches w) + MAX_RETRIES cfg + 1 \<and>
         int (length (sleeps w')) + int attempt = int (length (sleeps w)) + MAX_RETRIES cfg"
proof (induction cfg fetch random req attempt lastResp w rule: postWithRetry_loop.induct)
  case (1 cfg fetch random req attempt lastResp w)
  show ?case
  proof (cases "fetch (fetches w) req")
    case (Responded resp)
    show ?thesis
    proof (cases "ok resp")
      case True
      with 1(3,4) Responded show ?thesis by (simp add: loop_ok)
    next
      case notok: False
      show ?thesis
      proof (cases "status resp \<in> RETRY_STATUSES cfg \<and> int attempt < MAX_RETRIES cfg")
        case True
        with 1(4) Responded notok
        have "postWithRetry_loop cfg fetch random req (Suc attempt) (Some resp)
                (schedule_retry cfg random attempt (''Downstream '' @ String_int (status resp))
                   (did_fetch w)) = (Thrown e, w')"
          by (simp add: loop_retry_status)
        with 1(1) [OF 1(3) Responded notok True] True show ?thesis by auto
      next
        case False
        with 1(3,4) Responded notok show ?thesis by (auto simp: loop_final_status)
      qed
    qed
  next
    case (Threw err)
    show ?thesis
    proof (cases "int attempt < MAX_RETRIES cfg")
      case True
      with 1(4) Threw
      have "postWithRetry_loop cfg fetch random req (Suc attempt) lastResp
              (schedule_retry cfg random attempt (''Downstream error: '' @ failure_reason cfg err)
                 (did_fetch w)) = (Thrown e, w')"
        by (simp add: loop_retry_error)
      with 1(2) [OF 1(3) Threw True] True show ?thesis by auto
    next
      case False
      with 1(3) have "int attempt = MAX_RETRIES cfg" by simp
      with 1(4) Threw show ?thesis by (auto simp: loop_give_up)
    qed
  qed
qed

text \<open>
  The specification's \<^verbatim>\<open>maxRetries\<close> is never negative. With a negative
  \<^verbatim>\<open>MAX_RETRIES\<close> the body of the loop does not run, and the \<^verbatim>\<open>return lastResp!\<close>
  after the loop returns \<^verbatim>\<open>undefined\<close>.
\<close>

lemma negative_budget:
  "MAX_RETRIES cfg < 0 \<Longrightarrow> postWithRetry cfg fetch random u b hs w = (Returned None, w)"
  by (simp add: postWithRetry_def loop_exit)

subsection \<open>Rounding to a double\<close>

text \<open>
  What the lemmas on the backoff need of the rounding: it keeps a value between the whole
  numbers that bound it, so below \<open>2^53\<close> it leaves whole numbers as they are; and the
  unit in the last place of a number that lies between two powers of two.
\<close>

lemma round_even_of_int [simp]: "round_even (of_int k) = k"
  by (simp add: round_even_def)




lemma ulp_pos [simp]: "0 < ulp x"
  by (simp add: ulp_def)







subsection \<open>The delivery engine\<close>

text \<open>
  With a retry budget that is not negative, every call of \<^verbatim>\<open>postWithRetry\<close> ends in
  exactly one of a returned response and a thrown error (it never returns \<^verbatim>\<open>undefined\<close>,
  and the function is total), and the number of \<^verbatim>\<open>fetch\<close> calls it makes is at least 1
  and at most \<^verbatim>\<open>MAX_RETRIES + 1\<close>.
\<close>

lemma postWithRetry_one_outcome:
  assumes "0 \<le> MAX_RETRIES cfg"
    and "postWithRetry cfg fetch random u b hs w = (res, w')"
  shows "((\<exists>resp. res = Returned (Some resp)) \<or> (\<exists>err. res = Thrown err)) \<and>
         \<not> ((\<exists>resp. res = Returned (Some resp)) \<and> (\<exists>err. res = Thrown err)) \<and>
         1 \<le> fetches w' - fetches w \<and>
         int (fetches w' - fetches w) \<le> MAX_RETRIES cfg + 1"
proof -
  from assms have inv: "res \<noteq> Returned None \<and> fetches w < fetches w' \<and>
      int (fetches w') + int 0 \<le> int (fetches w) + MAX_RETRIES cfg + 1"
    unfolding postWithRetry_def by (intro loop_outcome) simp_all
  have "(\<exists>resp. res = Returned (Some resp)) \<or> (\<exists>err. res = Thrown err)"
  proof (cases res)
    case (Returned r)
    with inv show ?thesis by (cases r) simp_all
  next
    case (Thrown e)
    then show ?thesis by simp
  qed
  moreover have "\<not> ((\<exists>resp. res = Returned (Some resp)) \<and> (\<exists>err. res = Thrown err))"
    by auto
  moreover from inv have "1 \<le> fetches w' - fetches w"
    and "int (fetches w' - fetches w) \<le> MAX_RETRIES cfg + 1"
    by linarith+
  ultimately show ?thesis by blast
qed

text \<open>
  C1. Every call of \<^verbatim>\<open>postWithRetry\<close> is to end in exactly one of a returned response
  and a thrown error, after at least 1 and at most \<^verbatim>\<open>MAX_RETRIES + 1\<close> calls of
  \<^verbatim>\<open>fetch\<close>. The code does not when \<^verbatim>\<open>MAX_RETRIES\<close> is negative, as
  \<^verbatim>\<open>MAX_RETRIES=-1\<close> in the environment makes it: the condition of the loop fails at
  once, \<^verbatim>\<open>fetch\<close> is not called, and the \<^verbatim>\<open>return lastResp!\<close> after the loop, which
  the comment beside it says is not reached, returns \<^verbatim>\<open>undefined\<close>: neither a response
  nor an error. The world is left as it was.
\<close>

theorem postWithRetry_negative_budget:
  "MAX_RETRIES (default_config\<lparr>MAX_RETRIES := - 1\<rparr>) = - 1 \<and>
   postWithRetry (default_config\<lparr>MAX_RETRIES := - 1\<rparr>) fetch random u b hs w = (Returned None, w)"
  by (simp add: postWithRetry_def loop_exit default_config_def)

text \<open>
  C2. With \<^verbatim>\<open>MAX_RETRIES = 3\<close> and 500 among the retryable statuses, a delivery whose four
  \<^verbatim>\<open>fetch\<close> calls all get status 500 makes exactly four calls and returns the fourth
  response: the engine does not throw.
\<close>

theorem postWithRetry_all_500:
  assumes "MAX_RETRIES cfg = 3" and "500 \<in> RETRY_STATUSES cfg"
    and "req = \<lparr>url = u, headers = hs, body = b\<rparr>"
    and "fetch (fetches w) req = Responded r0" and "status r0 = 500"
    and "fetch (fetches w + 1) req = Responded r1" and "status r1 = 500"
    and "fetch (fetches w + 2) req = Responded r2" and "status r2 = 500"
    and "fetch (fetches w + 3) req = Responded r3" and "status r3 = 500"
  shows "\<exists>w'. postWithRetry cfg fetch random u b hs w = (Returned (Some r3), w') \<and>
              fetches w' = fetches w + 4 \<and> \<not> ok r3"
proof -
  let ?what = "''Downstream '' @ String_int 500"
  define w1 where "w1 = schedule_retry cfg random 0 ?what (did_fetch w)"
  define w2 where "w2 = schedule_retry cfg random (Suc 0) ?what (did_fetch w1)"
  define w3 where "w3 = schedule_retry cfg random (Suc (Suc 0)) ?what (did_fetch w2)"
  have f1: "fetches w1 = fetches w + 1" and f2: "fetches w2 = fetches w + 2"
    and f3: "fetches w3 = fetches w + 3"
    by (simp_all add: w1_def w2_def w3_def)
  have nok: "\<not> ok r0" "\<not> ok r1" "\<not> ok r2" "\<not> ok r3"
    using assms by (simp_all add: ok_def)
  have "postWithRetry cfg fetch random u b hs w
          = postWithRetry_loop cfg fetch random req 0 None w"
    by (simp add: postWithRetry_def assms(3))
  also have "\<dots> = postWithRetry_loop cfg fetch random req (Suc 0) (Some r0) w1"
    unfolding w1_def assms(5) [symmetric]
    by (rule loop_retry_status) (use assms nok in simp_all)
  also have "\<dots> = postWithRetry_loop cfg fetch random req (Suc (Suc 0)) (Some r1) w2"
    unfolding w2_def assms(7) [symmetric]
    by (rule loop_retry_status) (use assms nok f1 in simp_all)
  also have "\<dots> = postWithRetry_loop cfg fetch random req (Suc (Suc (Suc 0))) (Some r2) w3"
    unfolding w3_def assms(9) [symmetric]
    by (rule loop_retry_status) (use assms nok f2 in simp_all)
  also have "\<dots> = (Returned (Some r3), did_fetch w3)"
    by (rule loop_final_status) (use assms nok f3 in simp_all)
  finally show ?thesis using f3 nok by simp
qed

theorem postWithRetry_all_500_witness:
  "MAX_RETRIES default_config = 3 \<and> 500 \<in> RETRY_STATUSES default_config \<and>
   status (resp_of 500) = 500 \<and>
   (\<exists>w'. postWithRetry default_config (\<lambda>i req. Responded (resp_of 500)) (\<lambda>i. 0)
            ''http://downstream'' () [] world0 = (Returned (Some (resp_of 500)), w') \<and>
         fetches w' = fetches world0 + 4 \<and> \<not> ok (resp_of 500))"
proof -
  have h1: "MAX_RETRIES default_config = 3" and h2: "500 \<in> RETRY_STATUSES default_config"
    by (simp_all add: default_config_def)
  have h3: "status (resp_of 500) = 500"
    by (simp add: resp_of_def)
  show ?thesis
    using h1 h2 h3
      postWithRetry_all_500 [where fetch = "\<lambda>i req. Responded (resp_of 500)" and random = "\<lambda>i. 0"
          and u = "''http://downstream''" and b = "()" and hs = "[]" and w = world0,
          OF h1 h2 refl refl h3 refl h3 refl h3 refl h3]
    by blast
qed

text \<open>
  C3. When \<^verbatim>\<open>fetch\<close> fails (a timeout or a connection error) in the iteration where
  \<^verbatim>\<open>attempt\<close> equals \<^verbatim>\<open>MAX_RETRIES\<close>, the engine throws an \<^verbatim>\<open>Error\<close> whose message
  holds the number of retries and the reason of this last failure. With
  \<^verbatim>\<open>MAX_RETRIES = 0\<close> a failing first \<^verbatim>\<open>fetch\<close> ends the delivery with that error after
  one call, without a sleep. And whenever a delivery ends in a thrown error, its last
  \<^verbatim>\<open>fetch\<close> has failed, the message holds the reason of that failure and the number
  of retries made, which is \<^verbatim>\<open>MAX_RETRIES\<close>: one less than the number of calls.
\<close>

theorem postWithRetry_transport_failure:
  "(int attempt = MAX_RETRIES cfg \<and> fetch (fetches w) req = Threw err \<longrightarrow>
      postWithRetry_loop cfg fetch random req attempt lastResp w
        = (Thrown (Error (''Downstream request failed after '' @ String_int (int attempt)
                            @ '' retries: '' @ failure_reason cfg err)),
           did_fetch w)) \<and>
   (MAX_RETRIES cfg = 0 \<and> fetch (fetches w) \<lparr>url = u, headers = hs, body = b\<rparr> = Threw err \<longrightarrow>
      postWithRetry cfg fetch random u b hs w
        = (Thrown (Error (''Downstream request failed after 0 retries: ''
                            @ failure_reason cfg err)),
           did_fetch w) \<and>
      fetches (did_fetch w) = fetches w + 1 \<and> sleeps (did_fetch w) = sleeps w) \<and>
   (0 \<le> MAX_RETRIES cfg \<and> postWithRetry cfg fetch random u b hs w = (Thrown e, w') \<longrightarrow>
      (\<exists>last. fetch (fetches w' - 1) \<lparr>url = u, headers = hs, body = b\<rparr> = Threw last \<and>
         e = Error (''Downstream request failed after ''
                      @ String_int (int (fetches w' - fetches w) - 1)
                      @ '' retries: '' @ failure_reason cfg last) \<and>
         int (fetches w' - fetches w) = MAX_RETRIES cfg + 1 \<and>
         int (length (sleeps w') - length (sleeps w)) = MAX_RETRIES cfg))"
proof (intro conjI impI)
  assume "int attempt = MAX_RETRIES cfg \<and> fetch (fetches w) req = Threw err"
  then show "postWithRetry_loop cfg fetch random req attempt lastResp w
        = (Thrown (Error (''Downstream request failed after '' @ String_int (int attempt)
                            @ '' retries: '' @ failure_reason cfg err)),
           did_fetch w)"
    by (simp add: loop_give_up gave_up_def)
next
  assume h: "MAX_RETRIES cfg = 0 \<and> fetch (fetches w) \<lparr>url = u, headers = hs, body = b\<rparr> = Threw err"
  have zero: "String_int 0 = ''0''"
    by (simp add: String_int_def digit_char_def)
  from h show "postWithRetry cfg fetch random u b hs w
        = (Thrown (Error (''Downstream request failed after 0 retries: ''
                            @ failure_reason cfg err)),
           did_fetch w)"
    by (simp add: postWithRetry_def loop_give_up gave_up_def zero)
next
  assume h: "0 \<le> MAX_RETRIES cfg \<and> postWithRetry cfg fetch random u b hs w = (Thrown e, w')"
  then have "int 0 \<le> MAX_RETRIES cfg"
    and "postWithRetry_loop cfg fetch random \<lparr>url = u, headers = hs, body = b\<rparr> 0 None w
           = (Thrown e, w')"
    by (simp_all add: postWithRetry_def)
  from loop_thrown [OF this]
  obtain last where l: "fetch (fetches w' - 1) \<lparr>url = u, headers = hs, body = b\<rparr> = Threw last"
    and e: "e = gave_up cfg last"
    and f: "int (fetches w') = int (fetches w) + MAX_RETRIES cfg + 1"
    and s: "int (length (sleeps w')) = int (length (sleeps w)) + MAX_RETRIES cfg"
    by auto
  from f h have f': "int (fetches w' - fetches w) = MAX_RETRIES cfg + 1"
    by linarith
  from s h have s': "int (length (sleeps w') - length (sleeps w)) = MAX_RETRIES cfg"
    by linarith
  from e f' have "e = Error (''Downstream request failed after ''
                      @ String_int (int (fetches w' - fetches w) - 1)
                      @ '' retries: '' @ failure_reason cfg last)"
    by (simp add: gave_up_def)
  with l f' s'
  show "\<exists>last. fetch (fetches w' - 1) \<lparr>url = u, headers = hs, body = b\<rparr> = Threw last \<and>
         e = Error (''Downstream request failed after ''
                      @ String_int (int (fetches w' - fetches w) - 1)
                      @ '' retries: '' @ failure_reason cfg last) \<and>
         int (fetches w' - fetches w) = MAX_RETRIES cfg + 1 \<and>
         int (length (sleeps w') - length (sleeps w)) = MAX_RETRIES cfg"
    by blast
qed simp_all

theorem postWithRetry_transport_failure_witness:
  "int 3 = MAX_RETRIES default_config \<and>
   postWithRetry_loop default_config (\<lambda>i req. Threw (Error ''connect ECONNREFUSED'')) (\<lambda>i. 0)
       \<lparr>url = ''http://downstream'', headers = [], body = ()\<rparr> 3 None world0
     = (Thrown (Error ''Downstream request failed after 3 retries: connect ECONNREFUSED''),
        did_fetch world0) \<and>
   MAX_RETRIES (default_config\<lparr>MAX_RETRIES := 0\<rparr>) = 0 \<and>
   postWithRetry (default_config\<lparr>MAX_RETRIES := 0\<rparr>)
       (\<lambda>i req. Threw \<lparr>err_name = Some ''AbortError'', err_message = None, err_String = ''AbortError''\<rparr>)
       (\<lambda>i. 0) ''http://downstream'' () [] world0
     = (Thrown (Error ''Downstream request failed after 0 retries: timeout (8000ms)''),
        did_fetch world0) \<and>
   int (fetches (did_fetch world0) - fetches world0)
     = MAX_RETRIES (default_config\<lparr>MAX_RETRIES := 0\<rparr>) + 1"
proof -
  let ?cfg0 = "default_config\<lparr>MAX_RETRIES := 0\<rparr>"
  let ?abort = "\<lparr>err_name = Some ''AbortError'', err_message = None, err_String = ''AbortError''\<rparr>"
  have d3: "String_int 3 = ''3''" and d8000: "String_int 8000 = ''8000''"
    by (simp_all add: String_int_def digit_char_def)
  have h1: "int 3 = MAX_RETRIES default_config"
    and h2: "MAX_RETRIES ?cfg0 = 0" and h3: "0 \<le> MAX_RETRIES ?cfg0"
    by (simp_all add: default_config_def)
  note t1 = postWithRetry_transport_failure [where attempt = 3 and cfg = default_config
      and fetch = "\<lambda>i req. Threw (Error ''connect ECONNREFUSED'')" and random = "\<lambda>i. 0"
      and req = "\<lparr>url = ''http://downstream'', headers = [], body = ()\<rparr>"
      and lastResp = None and w = world0, THEN conjunct1, rule_format, OF conjI, OF h1 refl]
  note t2 = postWithRetry_transport_failure [where cfg = ?cfg0
      and fetch = "\<lambda>i req. Threw ?abort"
      and random = "\<lambda>i. 0" and u = "''http://downstream''" and b = "()" and hs = "[]"
      and w = world0, THEN conjunct2, THEN conjunct1, rule_format, OF conjI, OF h2 refl,
      THEN conjunct1]
  have r1: "failure_reason default_config (Error ''connect ECONNREFUSED'') = ''connect ECONNREFUSED''"
    by (simp add: failure_reason_def Error_def)
  have r2: "failure_reason ?cfg0 ?abort = ''timeout (8000ms)''"
    by (simp add: failure_reason_def default_config_def d8000)
  from t1 have a: "postWithRetry_loop default_config (\<lambda>i req. Threw (Error ''connect ECONNREFUSED''))
       (\<lambda>i. 0) \<lparr>url = ''http://downstream'', headers = [], body = ()\<rparr> 3 None world0
     = (Thrown (Error ''Downstream request failed after 3 retries: connect ECONNREFUSED''),
        did_fetch world0)"
    by (simp add: d3 r1)
  from t2 have b: "postWithRetry ?cfg0 (\<lambda>i req. Threw ?abort)
       (\<lambda>i. 0) ''http://downstream'' () [] world0
     = (Thrown (Error ''Downstream request failed after 0 retries: timeout (8000ms)''),
        did_fetch world0)"
    by (simp add: r2)
  from postWithRetry_transport_failure [THEN conjunct2, THEN conjunct2, rule_format,
      OF conjI, OF h3 b]
  have c: "int (fetches (did_fetch world0) - fetches world0) = MAX_RETRIES ?cfg0 + 1"
    by blast
  from a b c h1 h2 show ?thesis by blast
qed

text \<open>
  C4. With \<^verbatim>\<open>MAX_RETRIES = 3\<close> and 503 among the retryable statuses, a delivery that gets
  503 three times and then 200 makes exactly four \<^verbatim>\<open>fetch\<close> calls and returns the
  fourth response. In any iteration of the loop, whatever is left of the budget, a
  response with \<^verbatim>\<open>resp.ok\<close> is returned at once: this \<^verbatim>\<open>fetch\<close> is the last one.
\<close>

theorem postWithRetry_success:
  "(MAX_RETRIES cfg = 3 \<and> 503 \<in> RETRY_STATUSES cfg \<and>
    req = \<lparr>url = u, headers = hs, body = b\<rparr> \<and>
    fetch (fetches w) req = Responded r0 \<and> status r0 = 503 \<and>
    fetch (fetches w + 1) req = Responded r1 \<and> status r1 = 503 \<and>
    fetch (fetches w + 2) req = Responded r2 \<and> status r2 = 503 \<and>
    fetch (fetches w + 3) req = Responded r3 \<and> status r3 = 200 \<longrightarrow>
      (\<exists>w'. postWithRetry cfg fetch random u b hs w = (Returned (Some r3), w') \<and>
            fetches w' = fetches w + 4 \<and> ok r3)) \<and>
   (int attempt \<le> MAX_RETRIES cfg \<and> fetch (fetches w) req = Responded resp \<and> ok resp \<longrightarrow>
      postWithRetry_loop cfg fetch random req attempt lastResp w
        = (Returned (Some resp), did_fetch w) \<and>
      fetches (did_fetch w) = fetches w + 1 \<and> sleeps (did_fetch w) = sleeps w)"
proof (intro conjI impI)
  assume h: "MAX_RETRIES cfg = 3 \<and> 503 \<in> RETRY_STATUSES cfg \<and>
    req = \<lparr>url = u, headers = hs, body = b\<rparr> \<and>
    fetch (fetches w) req = Responded r0 \<and> status r0 = 503 \<and>
    fetch (fetches w + 1) req = Responded r1 \<and> status r1 = 503 \<and>
    fetch (fetches w + 2) req = Responded r2 \<and> status r2 = 503 \<and>
    fetch (fetches w + 3) req = Responded r3 \<and> status r3 = 200"
  let ?what = "''Downstream '' @ String_int 503"
  define w1 where "w1 = schedule_retry cfg random 0 ?what (did_fetch w)"
  define w2 where "w2 = schedule_retry cfg random (Suc 0) ?what (did_fetch w1)"
  define w3 where "w3 = schedule_retry cfg random (Suc (Suc 0)) ?what (did_fetch w2)"
  have f1: "fetches w1 = fetches w + 1" and f2: "fetches w2 = fetches w + 2"
    and f3: "fetches w3 = fetches w + 3"
    by (simp_all add: w1_def w2_def w3_def)
  have hq: "req = \<lparr>url = u, headers = hs, body = b\<rparr>"
    and m: "MAX_RETRIES cfg = 3" and r: "503 \<in> RETRY_STATUSES cfg"
    and s0: "status r0 = 503" and s1: "status r1 = 503" and s2: "status r2 = 503"
    and s3: "status r3 = 200"
    and e0: "fetch (fetches w) req = Responded r0"
    and e1: "fetch (fetches w + 1) req = Responded r1"
    and e2: "fetch (fetches w + 2) req = Responded r2"
    and e3: "fetch (fetches w + 3) req = Responded r3"
    using h by blast+
  have nok: "\<not> ok r0" "\<not> ok r1" "\<not> ok r2" and ok3: "ok r3"
    using s0 s1 s2 s3 by (simp_all add: ok_def)
  have "postWithRetry cfg fetch random u b hs w
          = postWithRetry_loop cfg fetch random req 0 None w"
    by (simp add: postWithRetry_def hq)
  also have "\<dots> = postWithRetry_loop cfg fetch random req (Suc 0) (Some r0) w1"
    unfolding w1_def s0 [symmetric]
    by (rule loop_retry_status) (use m r s0 e0 nok in simp_all)
  also have "\<dots> = postWithRetry_loop cfg fetch random req (Suc (Suc 0)) (Some r1) w2"
    unfolding w2_def s1 [symmetric]
    by (rule loop_retry_status) (use m r s1 e1 nok f1 in simp_all)
  also have "\<dots> = postWithRetry_loop cfg fetch random req (Suc (Suc (Suc 0))) (Some r2) w3"
    unfolding w3_def s2 [symmetric]
    by (rule loop_retry_status) (use m r s2 e2 nok f2 in simp_all)
  also have "\<dots> = (Returned (Some r3), did_fetch w3)"
    by (rule loop_ok) (use m e3 ok3 f3 in simp_all)
  finally show "\<exists>w'. postWithRetry cfg fetch random u b hs w = (Returned (Some r3), w') \<and>
            fetches w' = fetches w + 4 \<and> ok r3"
    using f3 ok3 by simp
next
  assume "int attempt \<le> MAX_RETRIES cfg \<and> fetch (fetches w) req = Responded resp \<and> ok resp"
  then show "postWithRetry_loop cfg fetch random req attempt lastResp w
        = (Returned (Some resp), did_fetch w)"
    by (simp add: loop_ok)
qed simp_all

theorem postWithRetry_success_witness:
  "MAX_RETRIES default_config = 3 \<and> 503 \<in> RETRY_STATUSES default_config \<and>
   (\<exists>w'. postWithRetry default_config
            (\<lambda>i req. Responded (resp_of ([503, 503, 503, 200] ! (i - fetches world0)))) (\<lambda>i. 0)
            ''http://downstream'' () [] world0 = (Returned (Some (resp_of 200)), w') \<and>
         fetches w' = fetches world0 + 4 \<and> ok (resp_of 200)) \<and>
   int 0 \<le> MAX_RETRIES default_config \<and> ok (resp_of 204) \<and>
   postWithRetry_loop default_config (\<lambda>i req. Responded (resp_of 204)) (\<lambda>i. 0)
       \<lparr>url = ''http://downstream'', headers = [], body = ()\<rparr> 0 None world0
     = (Returned (Some (resp_of 204)), did_fetch world0)"
proof -
  let ?fetch = "\<lambda>(i::nat) (req::unit request).
                  Responded (resp_of ([503, 503, 503, 200] ! (i - fetches world0)))"
  have h1: "MAX_RETRIES default_config = 3" and h2: "503 \<in> RETRY_STATUSES default_config"
    and h3: "int 0 \<le> MAX_RETRIES default_config"
    by (simp_all add: default_config_def)
  have h4: "ok (resp_of 204)"
    by (simp add: ok_def resp_of_def)
  have pre: "MAX_RETRIES default_config = 3 \<and> 503 \<in> RETRY_STATUSES default_config \<and>
    \<lparr>url = ''http://downstream'', headers = [], body = ()\<rparr>
      = \<lparr>url = ''http://downstream'', headers = [], body = ()\<rparr> \<and>
    ?fetch (fetches world0) \<lparr>url = ''http://downstream'', headers = [], body = ()\<rparr>
      = Responded (resp_of 503) \<and> status (resp_of 503) = 503 \<and>
    ?fetch (fetches world0 + 1) \<lparr>url = ''http://downstream'', headers = [], body = ()\<rparr>
      = Responded (resp_of 503) \<and> status (resp_of 503) = 503 \<and>
    ?fetch (fetches world0 + 2) \<lparr>url = ''http://downstream'', headers = [], body = ()\<rparr>
      = Responded (resp_of 503) \<and> status (resp_of 503) = 503 \<and>
    ?fetch (fetches world0 + 3) \<lparr>url = ''http://downstream'', headers = [], body = ()\<rparr>
      = Responded (resp_of 200) \<and> status (resp_of 200) = 200"
    by (simp add: default_config_def resp_of_def)
  note t1 = postWithRetry_success [THEN conjunct1, rule_format, OF pre]
  note t2 = postWithRetry_success [where cfg = default_config and attempt = 0
      and fetch = "\<lambda>i req. Responded (resp_of 204)" and random = "\<lambda>i. 0"
      and req = "\<lparr>url = ''http://downstream'', headers = [], body = ()\<rparr>"
      and lastResp = None and w = world0 and resp = "resp_of 204",
      THEN conjunct2, rule_format, OF conjI, OF h3 conjI, OF refl h4, THEN conjunct1]
  from t1 t2 h1 h2 h3 h4 show ?thesis by blast
qed

text \<open>
  C5. A first response that is neither 2xx nor among the retryable statuses (404, say)
  ends the delivery: one \<^verbatim>\<open>fetch\<close> call, no sleep, and this response is returned, for
  any retry budget that is not negative (3 in the claim).
\<close>

theorem postWithRetry_not_retryable:
  assumes "0 \<le> MAX_RETRIES cfg"
    and "fetch (fetches w) \<lparr>url = u, headers = hs, body = b\<rparr> = Responded resp"
    and "\<not> ok resp" and "status resp \<notin> RETRY_STATUSES cfg"
  shows "postWithRetry cfg fetch random u b hs w = (Returned (Some resp), did_fetch w) \<and>
         fetches (did_fetch w) = fetches w + 1 \<and> sleeps (did_fetch w) = sleeps w"
  using assms by (simp add: postWithRetry_def loop_final_status)

theorem postWithRetry_not_retryable_witness:
  "0 \<le> MAX_RETRIES default_config \<and> MAX_RETRIES default_config = 3 \<and>
   \<not> ok (resp_of 404) \<and> status (resp_of 404) \<notin> RETRY_STATUSES default_config \<and>
   postWithRetry default_config (\<lambda>i req. Responded (resp_of 404)) (\<lambda>i. 0)
       ''http://downstream'' () [] world0
     = (Returned (Some (resp_of 404)), did_fetch world0) \<and>
   fetches (did_fetch world0) = fetches world0 + 1"
proof -
  have h1: "0 \<le> MAX_RETRIES default_config" and h1': "MAX_RETRIES default_config = 3"
    and h3: "\<not> ok (resp_of 404)"
    and h4: "status (resp_of 404) \<notin> RETRY_STATUSES default_config"
    by (simp_all add: default_config_def ok_def resp_of_def)
  from postWithRetry_not_retryable [where fetch = "\<lambda>i req. Responded (resp_of 404)"
      and random = "\<lambda>i. 0" and u = "''http://downstream''" and b = "()" and hs = "[]"
      and w = world0, OF h1 refl h3 h4] h1 h1' h3 h4
  show ?thesis by blast
qed





text \<open>
  C9. When the engine returns a response that is not 2xx to the handler (503 after the
  budget is used up, say), the handler throws if \<^verbatim>\<open>FAIL_ON_NON_2XX\<close> is set and returns
  normally if it is not.
\<close>

theorem BlobWatcher_non_2xx:
  assumes "DOWNSTREAM_URL cfg \<noteq> []"
    and "postWithRetry cfg fetch random (DOWNSTREAM_URL cfg)
           (make_payload stringify pathname blob ctx) (make_headers cfg)
           (announce cfg (make_payload stringify pathname blob ctx) w)
         = (Returned (Some resp), w')"
    and "\<not> ok resp"
  shows "fst (BlobWatcher cfg stringify pathname fetch random blob ctx w)
         = (if FAIL_ON_NON_2XX cfg
            then Thrown (Error (''Downstream call failed with '' @ String_int (status resp)))
            else Returned ())"
  using assms by (simp add: BlobWatcher_def Let_def)

theorem BlobWatcher_non_2xx_witness:
  "DOWNSTREAM_URL (default_config\<lparr>DOWNSTREAM_URL := ''http://downstream'', MAX_RETRIES := 0\<rparr>) \<noteq> [] \<and>
   \<not> ok (resp_of 503) \<and>
   fst (BlobWatcher (default_config\<lparr>DOWNSTREAM_URL := ''http://downstream'', MAX_RETRIES := 0\<rparr>)
          (\<lambda>v::unit. None) (\<lambda>u. None) (\<lambda>i req. Responded (resp_of 503)) (\<lambda>i. 0)
          Null \<lparr>triggerMetadata = None\<rparr> world0)
     = Thrown (Error ''Downstream call failed with 503'') \<and>
   fst (BlobWatcher (default_config\<lparr>DOWNSTREAM_URL := ''http://downstream'', MAX_RETRIES := 0,
                                    FAIL_ON_NON_2XX := False\<rparr>)
          (\<lambda>v::unit. None) (\<lambda>u. None) (\<lambda>i req. Responded (resp_of 503)) (\<lambda>i. 0)
          Null \<lparr>triggerMetadata = None\<rparr> world0)
     = Returned ()"
proof -
  let ?on = "default_config\<lparr>DOWNSTREAM_URL := ''http://downstream'', MAX_RETRIES := 0\<rparr>"
  let ?off = "default_config\<lparr>DOWNSTREAM_URL := ''http://downstream'', MAX_RETRIES := 0,
                              FAIL_ON_NON_2XX := False\<rparr>"
  let ?fetch = "\<lambda>(i::nat) (req::downstream_payload request). Responded (resp_of 503)"
  have u: "DOWNSTREAM_URL ?on \<noteq> []" "DOWNSTREAM_URL ?off \<noteq> []"
    by (simp_all add: default_config_def)
  have nok: "\<not> ok (resp_of 503)"
    by (simp add: ok_def resp_of_def)
  have run: "MAX_RETRIES cfg = 0 \<Longrightarrow>
             postWithRetry cfg ?fetch random u b hs w = (Returned (Some (resp_of 503)), did_fetch w)"
    for cfg random u b hs w
    by (simp add: postWithRetry_def loop_final_status nok)
  have d: "String_int (status (resp_of 503)) = ''503''"
    by (simp add: String_int_def digit_char_def resp_of_def)
  have "fst (BlobWatcher ?on (\<lambda>v::unit. None) (\<lambda>u. None) ?fetch (\<lambda>i. 0) Null
               \<lparr>triggerMetadata = None\<rparr> world0)
        = Thrown (Error ''Downstream call failed with 503'')"
    using BlobWatcher_non_2xx [OF u(1) run nok, where stringify = "\<lambda>v::unit. None"
        and pathname = "\<lambda>u. None" and random = "\<lambda>i. 0" and blob = Null
        and ctx = "\<lparr>triggerMetadata = None\<rparr>" and w = world0]
    by (simp add: d default_config_def)
  moreover
  have "fst (BlobWatcher ?off (\<lambda>v::unit. None) (\<lambda>u. None) ?fetch (\<lambda>i. 0) Null
               \<lparr>triggerMetadata = None\<rparr> world0)
        = Returned ()"
    using BlobWatcher_non_2xx [OF u(2) run nok, where stringify = "\<lambda>v::unit. None"
        and pathname = "\<lambda>u. None" and random = "\<lambda>i. 0" and blob = Null
        and ctx = "\<lparr>triggerMetadata = None\<rparr>" and w = world0]
    by (simp add: default_config_def)
  ultimately show ?thesis using u nok by blast
qed

subsection \<open>Extraction and size\<close>

lemma split_slash_not_Nil [simp]: "split_slash s \<noteq> []"
  by (induction s) (auto split: list.splits)

lemma split_slash_no_slash: "slash \<notin> set s \<Longrightarrow> split_slash s = [s]"
  by (induction s) auto

lemma split_slash_append:
  "slash \<notin> set a \<Longrightarrow> split_slash (a @ slash # rest) = a # split_slash rest"
  by (induction a) auto

lemma join_slash_Cons: "ps \<noteq> [] \<Longrightarrow> join_slash (p # ps) = p @ slash # join_slash ps"
  by (cases ps) simp_all

lemma join_split_slash: "join_slash (split_slash s) = s"
proof (induction s)
  case Nil
  show ?case by simp
next
  case (Cons c cs)
  show ?case
  proof (cases "c = slash")
    case True
    with Cons show ?thesis by (simp add: join_slash_Cons)
  next
    case False
    obtain p ps where sp: "split_slash cs = p # ps"
      by (cases "split_slash cs") simp_all
    with Cons have "join_slash (p # ps) = cs" by simp
    then have "join_slash ((c # p) # ps) = c # cs"
      by (cases ps) simp_all
    with False sp show ?thesis by simp
  qed
qed

lemma first_slash:
  assumes "slash \<notin> set c"
  shows "takeWhile (\<lambda>x. x \<noteq> slash) (c @ slash # n) = c"
    and "tl (dropWhile (\<lambda>x. x \<noteq> slash) (c @ slash # n)) = n"
  using assms by (induction c) auto

lemma parseFromContext_uri_path:
  assumes "slash \<notin> set (metadata_string ctx ''blobTrigger'')"
    and "metadata_string ctx ''uri'' \<noteq> []"
    and "pathname (metadata_string ctx ''uri'') = Some (slash # account @ slash # cont @ slash # rest)"
    and "account \<noteq> []" and "slash \<notin> set account" and "slash \<notin> set cont"
  shows "parseFromContext pathname ctx = \<lparr>container = cont, name = rest\<rparr>"
proof -
  from assms(4,5)
  have strip: "dropWhile (\<lambda>x. x = slash) (account @ slash # cont @ slash # rest)
                 = account @ slash # cont @ slash # rest"
    by (cases account) auto
  from assms(5,6) have parts: "split_slash (account @ slash # cont @ slash # rest)
                 = account # cont # split_slash rest"
    by (simp add: split_slash_append)
  from assms(1,2,3) show ?thesis
    by (simp add: parseFromContext_def Let_def strip parts join_split_slash)
qed

text \<open>
  C7, as the code has it. A descriptor with a slash is cut at its first slash: the
  container is what stands before it, the name all that follows. Without such a
  descriptor (none, an empty one, or one that has no slash) and with a URI whose path
  parses, the container is the second segment of the path and the name the segments after
  it joined by slashes; so a path \<^verbatim>\<open>/account/container/rest\<close> gives the container and
  \<^verbatim>\<open>rest\<close> as it stands. With neither (no usable descriptor, and no URI or one that does
  not parse) container and name are empty.
\<close>

theorem parseFromContext_extraction:
  "(metadata_string ctx ''blobTrigger'' = c @ slash # n \<and> slash \<notin> set c \<longrightarrow>
      parseFromContext pathname ctx = \<lparr>container = c, name = n\<rparr>) \<and>
   (slash \<notin> set (metadata_string ctx ''blobTrigger'') \<and> metadata_string ctx ''uri'' \<noteq> [] \<and>
    pathname (metadata_string ctx ''uri'') = Some p \<and>
    parts = split_slash (dropWhile (\<lambda>x. x = slash) p) \<longrightarrow>
      parseFromContext pathname ctx
        = \<lparr>container = (if 1 < length parts then parts ! 1 else []),
           name = join_slash (drop 2 parts)\<rparr>) \<and>
   (slash \<notin> set (metadata_string ctx ''blobTrigger'') \<and> metadata_string ctx ''uri'' \<noteq> [] \<and>
    pathname (metadata_string ctx ''uri'') = Some (slash # account @ slash # cont @ slash # rest) \<and>
    account \<noteq> [] \<and> slash \<notin> set account \<and> slash \<notin> set cont \<longrightarrow>
      parseFromContext pathname ctx = \<lparr>container = cont, name = rest\<rparr>) \<and>
   (slash \<notin> set (metadata_string ctx ''blobTrigger'') \<and>
    (metadata_string ctx ''uri'' = [] \<or> pathname (metadata_string ctx ''uri'') = None) \<longrightarrow>
      parseFromContext pathname ctx = \<lparr>container = [], name = []\<rparr>)"
proof (intro conjI impI)
  assume "metadata_string ctx ''blobTrigger'' = c @ slash # n \<and> slash \<notin> set c"
  then show "parseFromContext pathname ctx = \<lparr>container = c, name = n\<rparr>"
    by (simp add: parseFromContext_def first_slash)
next
  assume "slash \<notin> set (metadata_string ctx ''blobTrigger'') \<and> metadata_string ctx ''uri'' \<noteq> [] \<and>
    pathname (metadata_string ctx ''uri'') = Some p \<and>
    parts = split_slash (dropWhile (\<lambda>x. x = slash) p)"
  then show "parseFromContext pathname ctx
        = \<lparr>container = (if 1 < length parts then parts ! 1 else []),
           name = join_slash (drop 2 parts)\<rparr>"
    by (simp add: parseFromContext_def Let_def)
next
  assume h: "slash \<notin> set (metadata_string ctx ''blobTrigger'') \<and> metadata_string ctx ''uri'' \<noteq> [] \<and>
    pathname (metadata_string ctx ''uri'') = Some (slash # account @ slash # cont @ slash # rest) \<and>
    account \<noteq> [] \<and> slash \<notin> set account \<and> slash \<notin> set cont"
  then show "parseFromContext pathname ctx = \<lparr>container = cont, name = rest\<rparr>"
    by (intro parseFromContext_uri_path [where account = account]) simp_all
next
  assume "slash \<notin> set (metadata_string ctx ''blobTrigger'') \<and>
    (metadata_string ctx ''uri'' = [] \<or> pathname (metadata_string ctx ''uri'') = None)"
  then show "parseFromContext pathname ctx = \<lparr>container = [], name = []\<rparr>"
    by (auto simp: parseFromContext_def Let_def)
qed

theorem parseFromContext_extraction_witness:
  "parseFromContext azurite_pathname \<lparr>triggerMetadata = Some [''blobTrigger'' \<mapsto> ''a/b/c'']\<rparr>
     = \<lparr>container = ''a'', name = ''b/c''\<rparr> \<and>
   split_slash (dropWhile (\<lambda>x. x = slash) ''/devstoreaccount1/my-container/dir/file.txt'')
     = [''devstoreaccount1'', ''my-container'', ''dir'', ''file.txt''] \<and>
   parseFromContext azurite_pathname \<lparr>triggerMetadata = Some [''uri'' \<mapsto> azurite_uri]\<rparr>
     = \<lparr>container = ''my-container'', name = ''dir/file.txt''\<rparr> \<and>
   parseFromContext azurite_pathname \<lparr>triggerMetadata = Some [''uri'' \<mapsto> ''not a url'']\<rparr>
     = \<lparr>container = [], name = []\<rparr> \<and>
   parseFromContext azurite_pathname \<lparr>triggerMetadata = None\<rparr> = \<lparr>container = [], name = []\<rparr>"
proof -
  let ?d = "\<lparr>triggerMetadata = Some [''blobTrigger'' \<mapsto> ''a/b/c'']\<rparr>"
  let ?u = "\<lparr>triggerMetadata = Some [''uri'' \<mapsto> azurite_uri]\<rparr>"
  let ?bad = "\<lparr>triggerMetadata = Some [''uri'' \<mapsto> ''not a url'']\<rparr>"
  let ?none = "\<lparr>triggerMetadata = None\<rparr>"
  let ?parts = "[''devstoreaccount1'', ''my-container'', ''dir'', ''file.txt'']"
  have sp: "split_slash (dropWhile (\<lambda>x. x = slash) ''/devstoreaccount1/my-container/dir/file.txt'')
              = ?parts"
    by (simp add: slash_def)
  have h1: "metadata_string ?d ''blobTrigger'' = ''a'' @ slash # ''b/c'' \<and> slash \<notin> set ''a''"
    by (simp add: metadata_string_def slash_def)
  have h2: "slash \<notin> set (metadata_string ?u ''blobTrigger'') \<and> metadata_string ?u ''uri'' \<noteq> [] \<and>
            azurite_pathname (metadata_string ?u ''uri'')
              = Some ''/devstoreaccount1/my-container/dir/file.txt'' \<and>
            ?parts = split_slash (dropWhile (\<lambda>x. x = slash)
                                    ''/devstoreaccount1/my-container/dir/file.txt'')"
    by (simp add: metadata_string_def azurite_pathname_def azurite_uri_def slash_def)
  have h3: "slash \<notin> set (metadata_string ?u ''blobTrigger'') \<and> metadata_string ?u ''uri'' \<noteq> [] \<and>
            azurite_pathname (metadata_string ?u ''uri'')
              = Some (slash # ''devstoreaccount1'' @ slash # ''my-container'' @ slash # ''dir/file.txt'') \<and>
            ''devstoreaccount1'' \<noteq> [] \<and> slash \<notin> set ''devstoreaccount1'' \<and>
            slash \<notin> set ''my-container''"
    by (simp add: metadata_string_def azurite_pathname_def azurite_uri_def slash_def)
  have h4: "slash \<notin> set (metadata_string ?bad ''blobTrigger'') \<and>
            (metadata_string ?bad ''uri'' = [] \<or>
             azurite_pathname (metadata_string ?bad ''uri'') = None)"
    by (simp add: metadata_string_def azurite_pathname_def azurite_uri_def)
  have h5: "slash \<notin> set (metadata_string ?none ''blobTrigger'') \<and>
            (metadata_string ?none ''uri'' = [] \<or>
             azurite_pathname (metadata_string ?none ''uri'') = None)"
    by (simp add: metadata_string_def)
  note t = parseFromContext_extraction [where pathname = azurite_pathname]
  have "parseFromContext azurite_pathname ?u
          = \<lparr>container = (if 1 < length ?parts then ?parts ! 1 else []),
             name = join_slash (drop 2 ?parts)\<rparr>"
    by (rule t [THEN conjunct2, THEN conjunct1, rule_format, OF h2])
  then have r2: "parseFromContext azurite_pathname ?u
                   = \<lparr>container = ''my-container'', name = ''dir/file.txt''\<rparr>"
    by (simp add: slash_def)
  from t [THEN conjunct1, rule_format, OF h1]
    t [THEN conjunct2, THEN conjunct2, THEN conjunct1, rule_format, OF h3]
    t [THEN conjunct2, THEN conjunct2, THEN conjunct2, rule_format, OF h4]
    t [THEN conjunct2, THEN conjunct2, THEN conjunct2, rule_format, OF h5]
    sp r2
  show ?thesis by simp
qed

text \<open>
  C7 as it is worded fails on a descriptor that is present and has no slash: the code does
  not split it, it reads the URI.
\<close>

theorem parseFromContext_descriptor_without_slash:
  "metadata_string ctx_no_slash ''blobTrigger'' = ''abc'' \<and>
   parseFromContext azurite_pathname ctx_no_slash
     = \<lparr>container = ''my-container'', name = ''dir/file.txt''\<rparr> \<and>
   extraction_as_specified azurite_pathname ctx_no_slash = \<lparr>container = ''abc'', name = ''''\<rparr> \<and>
   parseFromContext azurite_pathname ctx_no_slash
     \<noteq> extraction_as_specified azurite_pathname ctx_no_slash"
proof -
  have b: "metadata_string ctx_no_slash ''blobTrigger'' = ''abc''"
    and u: "metadata_string ctx_no_slash ''uri'' = azurite_uri"
    by (simp_all add: metadata_string_def ctx_no_slash_def)
  have p: "azurite_pathname azurite_uri = Some ''/devstoreaccount1/my-container/dir/file.txt''"
    by (simp add: azurite_pathname_def)
  have ne: "azurite_uri \<noteq> []"
    by (simp add: azurite_uri_def)
  have "parseFromContext azurite_pathname ctx_no_slash
          = \<lparr>container = ''my-container'', name = ''dir/file.txt''\<rparr>"
    by (rule parseFromContext_uri_path [where account = "''devstoreaccount1''"])
       (simp_all add: b u p ne slash_def)
  then have code: "parseFromContext azurite_pathname ctx_no_slash
                = \<lparr>container = ''my-container'', name = ''dir/file.txt''\<rparr>" .
  have spec: "extraction_as_specified azurite_pathname ctx_no_slash
                = \<lparr>container = ''abc'', name = ''''\<rparr>"
    by (simp add: extraction_as_specified_def b slash_def)
  from b code spec show ?thesis by simp
qed

text \<open>
  C8. The size is 0 for null and undefined, the byte length of a string and the length of a
  \<^verbatim>\<open>Uint8Array\<close>, the byte length of the JSON text of any other payload, and 0 when such
  a payload has no JSON text (\<^verbatim>\<open>JSON.stringify\<close> throws or gives nothing).
\<close>

theorem getBlobSize_cases:
  "getBlobSize stringify Null = 0 \<and>
   getBlobSize stringify Undefined = 0 \<and>
   getBlobSize stringify (Str s) = length s \<and>
   getBlobSize stringify (Uint8Array bs) = length bs \<and>
   (stringify v = Some json \<longrightarrow> getBlobSize stringify (Other v) = length json) \<and>
   (stringify v = None \<longrightarrow> getBlobSize stringify (Other v) = 0)"
  by (simp add: Buffer_byteLength_def)

theorem getBlobSize_cases_witness:
  "(\<lambda>v. if v = [] then Some ''[]'' else None) ([]::nat list) = Some ''[]'' \<and>
   getBlobSize (\<lambda>v. if v = [] then Some ''[]'' else None) (Other ([]::nat list)) = 2 \<and>
   (\<lambda>v. if v = [] then Some ''[]'' else None) [1::nat] = None \<and>
   getBlobSize (\<lambda>v. if v = [] then Some ''[]'' else None) (Other [1::nat]) = 0 \<and>
   getBlobSize (\<lambda>v. if v = [] then Some ''[]'' else None) (Str ''abc'' :: nat list payload) = 3 \<and>
   getBlobSize (\<lambda>v. if v = [] then Some ''[]'' else None) (Uint8Array [1, 2] :: nat list payload) = 2"
proof -
  let ?js = "\<lambda>v::nat list. if v = [] then Some ''[]'' else None"
  have h1: "?js [] = Some ''[]''" and h2: "?js [1] = None"
    by simp_all
  note t = getBlobSize_cases [where stringify = ?js]
  from t [where v = "[]" and json = "''[]''", THEN conjunct2, THEN conjunct2, THEN conjunct2,
          THEN conjunct2, THEN conjunct1, rule_format, OF h1]
    t [where v = "[1]", THEN conjunct2, THEN conjunct2, THEN conjunct2,
       THEN conjunct2, THEN conjunct2, rule_format, OF h2]
    t [where s = "''abc''", THEN conjunct2, THEN conjunct2, THEN conjunct1]
    t [where bs = "[1, 2]", THEN conjunct2, THEN conjunct2, THEN conjunct2, THEN conjunct1]
  show ?thesis by simp
qed

text \<open>
  C10. A descriptor that is not empty and has no slash is not used: the extraction gives
  what it gives on the same metadata without the descriptor, that is what the URI gives
  or, with no URI or one that does not parse, the empty container and name.
\<close>

theorem parseFromContext_ignores_descriptor_without_slash:
  assumes "triggerMetadata ctx = Some m" and "m ''blobTrigger'' = Some d"
    and "d \<noteq> []" and "slash \<notin> set d"
  shows "parseFromContext pathname ctx
           = parseFromContext pathname (ctx\<lparr>triggerMetadata := Some (m(''blobTrigger'' := None))\<rparr>) \<and>
         (metadata_string ctx ''uri'' = [] \<or> pathname (metadata_string ctx ''uri'') = None \<longrightarrow>
            parseFromContext pathname ctx = \<lparr>container = [], name = []\<rparr>)"
  using assms by (auto simp: parseFromContext_def metadata_string_def Let_def)

theorem parseFromContext_ignores_descriptor_without_slash_witness:
  "triggerMetadata ctx_no_slash = Some [''blobTrigger'' \<mapsto> ''abc'', ''uri'' \<mapsto> azurite_uri] \<and>
   ''abc'' \<noteq> [] \<and> slash \<notin> set ''abc'' \<and>
   parseFromContext azurite_pathname ctx_no_slash
     = parseFromContext azurite_pathname
         (ctx_no_slash\<lparr>triggerMetadata :=
            Some ([''blobTrigger'' \<mapsto> ''abc'', ''uri'' \<mapsto> azurite_uri](''blobTrigger'' := None))\<rparr>) \<and>
   parseFromContext (\<lambda>u. None) ctx_no_slash = \<lparr>container = [], name = []\<rparr>"
proof -
  have h1: "triggerMetadata ctx_no_slash
              = Some [''blobTrigger'' \<mapsto> ''abc'', ''uri'' \<mapsto> azurite_uri]"
    by (simp add: ctx_no_slash_def)
  have h2: "[''blobTrigger'' \<mapsto> ''abc'', ''uri'' \<mapsto> azurite_uri] ''blobTrigger'' = Some ''abc''"
    by simp
  have h3: "''abc'' \<noteq> []" and h4: "slash \<notin> set ''abc''"
    by (simp_all add: slash_def)
  note t = parseFromContext_ignores_descriptor_without_slash [OF h1 h2 h3 h4]
  from t [where pathname = azurite_pathname, THEN conjunct1]
    t [where pathname = "\<lambda>u. None", THEN conjunct2, rule_format, OF disjI2, OF refl]
    h1 h3 h4
  show ?thesis by blast
qed

end
